theory Spec2Isabelle
  imports Main "HOL-Library.Multiset" "HOL-Library.AList" "HOL-Library.Product_Lexorder"
begin

section \<open>Common types\<close>

text \<open>
  Python's \<open>datetime\<close> values are modelled as integers (microseconds on a common time line):
  only their order and the sums and differences the code forms are used. The range check of
  Python's \<open>datetime\<close> arithmetic (OverflowError beyond year 9999) is not modelled.
\<close>

type_synonym datetime = int

text \<open>The exceptions the modelled code raises, with the message where the source gives one.\<close>

datatype error =
    ValueError string
  | RuntimeError string
  | TypeError string
  | NotImplementedError
  | IndexError
  | AttributeError string
  | KeyError
  | CustomMessageWiringError string

section \<open>Time-series set output (\<open>hg/_impl/_types/_tss.py\<close>)\<close>

text \<open>\<open>PythonSetDelta\<close>: a frozen dataclass of two frozensets.\<close>

record 'a PythonSetDelta =
  added :: "'a set"
  removed :: "'a set"

definition added_elements :: "'a PythonSetDelta \<Rightarrow> 'a set" where
  "added_elements d = added d"

definition removed_elements :: "'a PythonSetDelta \<Rightarrow> 'a set" where
  "removed_elements d = removed d"

text \<open>
  Modelled from the spec: the base class \<open>PythonTimeSeriesOutput\<close>
  (\<open>hg/_impl/_types/_output.py\<close>) is missing. "Every output exposes: current value, delta
  value, validity, last-modified engine time, \<open>mark_modified()\<close>"; \<open>mark_modified\<close> makes the
  output valid and sets its last-modified time to the current engine time. These are the
  fields \<open>valid\<close> and \<open>last_modified_time\<close> of the record of \<open>PythonTimeSeriesSetOutput\<close>;
  \<open>queued_resets\<close> counts the \<open>_reset\<close> callbacks this output has handed to
  \<open>add_after_evaluation_notification\<close> and that have not run yet. The fields \<open>_value\<close>,
  \<open>_added\<close> and \<open>_removed\<close> are those of the source (\<open>None\<close> is \<open>None\<close>).
\<close>

record 'a PythonTimeSeriesSetOutput =
  p_value :: "'a set"
  p_added :: "'a set option"
  p_removed :: "'a set option"
  valid :: bool
  last_modified_time :: datetime
  queued_resets :: nat

text \<open>What \<open>apply_result\<close> is handed: \<open>None\<close>, a \<open>SetDelta\<close>, or anything else (taken as a set).\<close>

datatype 'a tss_result = RNone | RSetDelta "'a PythonSetDelta" | RSet "'a set"

definition TimeSeriesSetOutput_value :: "'a PythonTimeSeriesSetOutput \<Rightarrow> 'a set" where
  "TimeSeriesSetOutput_value self = p_value self"

text \<open>
  \<open>delta_value\<close> builds \<open>frozenset(self._added)\<close> and \<open>frozenset(self._removed)\<close>; on \<open>None\<close>
  (no delta in this tick) \<open>frozenset(None)\<close> raises TypeError.
\<close>

definition delta_value :: "'a PythonTimeSeriesSetOutput \<Rightarrow> error + 'a PythonSetDelta" where
  "delta_value self =
     (case p_added self of
        None \<Rightarrow> Inl (TypeError ''NoneType object is not iterable'')
      | Some a \<Rightarrow>
          (case p_removed self of
             None \<Rightarrow> Inl (TypeError ''NoneType object is not iterable'')
           | Some r \<Rightarrow> Inr \<lparr>added = a, removed = r\<rparr>))"

text \<open>\<open>mark_modified\<close>: the base class's part, then the \<open>_reset\<close> callback is queued.\<close>

definition mark_modified :: "datetime \<Rightarrow> 'a PythonTimeSeriesSetOutput \<Rightarrow> 'a PythonTimeSeriesSetOutput" where
  "mark_modified now self =
     self\<lparr>valid := True, last_modified_time := now, queued_resets := Suc (queued_resets self)\<rparr>"

definition reset :: "'a PythonTimeSeriesSetOutput \<Rightarrow> 'a PythonTimeSeriesSetOutput" where
  "reset self = self\<lparr>p_added := None, p_removed := None\<rparr>"

text \<open>The last statement of \<open>apply_result\<close>, shared by the two branches that reach it.\<close>

definition apply_result_mark :: "datetime \<Rightarrow> 'a PythonTimeSeriesSetOutput \<Rightarrow> 'a PythonTimeSeriesSetOutput" where
  "apply_result_mark now self =
     (if (p_added self \<noteq> None \<and> p_added self \<noteq> Some {})
         \<or> (p_removed self \<noteq> None \<and> p_removed self \<noteq> Some {})
         \<or> \<not> valid self
      then mark_modified now self else self)"

text \<open>
  \<open>apply_result\<close>. \<open>now\<close> is the current engine time, read by \<open>mark_modified\<close>. Both filters
  read \<open>self._value\<close> before it is updated. When the ValueError is raised the two delta
  fields have already been assigned; the sum type keeps only the error.
\<close>

definition apply_result ::
  "datetime \<Rightarrow> 'a tss_result \<Rightarrow> 'a PythonTimeSeriesSetOutput \<Rightarrow> error + 'a PythonTimeSeriesSetOutput" where
  "apply_result now result self =
     (case result of
        RNone \<Rightarrow> Inr self
      | RSetDelta d \<Rightarrow>
          (let a = {e \<in> added_elements d. e \<notin> p_value self};
               r = {e \<in> removed_elements d. e \<in> p_value self};
               self1 = self\<lparr>p_added := Some a, p_removed := Some r\<rparr>
           in if r \<inter> a \<noteq> {}
              then Inl (ValueError ''Cannot remove and add the same element'')
              else Inr (apply_result_mark now (self1\<lparr>p_value := (p_value self1 \<union> a) - r\<rparr>)))
      | RSet s \<Rightarrow>
          (let self1 = self\<lparr>p_added := Some s, p_removed := Some {}\<rparr>
           in Inr (apply_result_mark now (self1\<lparr>p_value := p_value self1 \<union> s\<rparr>))))"

text \<open>\<open>apply_result(d)\<close> on a set delta, then the read of \<open>delta_value\<close> in the same tick.\<close>

definition apply_then_delta ::
  "datetime \<Rightarrow> 'a PythonSetDelta \<Rightarrow> 'a PythonTimeSeriesSetOutput \<Rightarrow> error + 'a PythonSetDelta" where
  "apply_then_delta now d self =
     (case apply_result now (RSetDelta d) self of
        Inl e \<Rightarrow> Inl e
      | Inr self' \<Rightarrow> delta_value self')"

section \<open>Bundle input (\<open>hg/_impl/_types/_tsb.py\<close>)\<close>

text \<open>
  What an input reads of the output it is bound to is the output's valid flag.
\<close>

record ts_output =
  output_valid :: bool

text \<open>
  A time-series input is a plain (non-bundle) input or a bundle input; both carry the bound
  output (\<open>None\<close> when there is none), the bundle also the children of \<open>_ts_value\<close>, by key
  and in the order of the schema.
\<close>

datatype ts_input =
    PlainInput "ts_output option"
  | BundleInput "ts_output option" "(string \<times> ts_input) list"

fun input_output :: "ts_input \<Rightarrow> ts_output option" where
  "input_output (PlainInput out) = out"
| "input_output (BundleInput out cs) = out"

text \<open>
  Modelled from the spec: the base class \<open>PythonBoundTimeSeriesInput\<close>
  (\<open>hg/_impl/_types/_input.py\<close>) is missing. Each input stores "a bound output (possibly
  null)", so \<open>bound\<close> of the base class is that this output is not null; "an input is valid
  iff the output it resolves to is valid", so \<open>valid\<close> of the base class is the valid flag of
  the bound output, and false when there is no output.
\<close>

definition base_bound :: "ts_input \<Rightarrow> bool" where
  "base_bound self = (input_output self \<noteq> None)"

definition base_valid :: "ts_input \<Rightarrow> bool" where
  "base_valid self = (case input_output self of None \<Rightarrow> False | Some out \<Rightarrow> output_valid out)"

text \<open>\<open>has_peer\<close> is \<open>super().bound\<close>.\<close>

definition has_peer :: "ts_input \<Rightarrow> bool" where
  "has_peer self = base_bound self"

text \<open>
  \<open>PythonTimeSeriesBundleInput.valid\<close>: the base class's answer with a peer, otherwise
  \<open>any(ts.valid for ts in self.values())\<close>, where a child bundle answers in the same way.
\<close>

fun input_valid :: "ts_input \<Rightarrow> bool" where
  "input_valid (PlainInput out) = base_valid (PlainInput out)"
| "input_valid (BundleInput out cs) =
     (if has_peer (BundleInput out cs) then base_valid (BundleInput out cs)
      else list_ex input_valid (map snd cs))"

section \<open>Graph engine (\<open>hg/_impl/_runtime/_graph_engine.py\<close>)\<close>

subsection \<open>The back-test execution context\<close>

text \<open>
  \<open>BackTestExecutionContext\<close> with its three attributes. \<open>datetime.now()\<close> is the host's
  clock: a function that reads it takes the reading as its first argument.
\<close>

record BackTestExecutionContext =
  p_current_time :: datetime
  p_wall_clock_time_at_current_time :: datetime
  p_proposed_next_engine_time :: datetime

text \<open>The setter of \<open>current_engine_time\<close> also re-anchors the wall clock.\<close>

definition set_current_engine_time ::
  "datetime \<Rightarrow> datetime \<Rightarrow> BackTestExecutionContext \<Rightarrow> BackTestExecutionContext" where
  "set_current_engine_time reading v self =
     self\<lparr>p_current_time := v, p_wall_clock_time_at_current_time := reading\<rparr>"

text \<open>
  \<open>__init__\<close> assigns \<open>current_engine_time\<close> through the setter and then sets the proposed
  time to \<open>MAX_DT\<close>, a constant of \<open>hg._runtime._constants\<close> that is missing from the sources
  at hand and is taken as the parameter \<open>max_dt\<close>.
\<close>

definition BackTestExecutionContext_init ::
  "datetime \<Rightarrow> datetime \<Rightarrow> datetime \<Rightarrow> BackTestExecutionContext" where
  "BackTestExecutionContext_init max_dt reading current_time =
     \<lparr>p_current_time = current_time,
      p_wall_clock_time_at_current_time = reading,
      p_proposed_next_engine_time = max_dt\<rparr>"

definition wait_until_proposed_engine_time ::
  "datetime \<Rightarrow> BackTestExecutionContext \<Rightarrow> BackTestExecutionContext" where
  "wait_until_proposed_engine_time proposed_engine_time self =
     self\<lparr>p_current_time := proposed_engine_time\<rparr>"

definition proposed_next_engine_time :: "BackTestExecutionContext \<Rightarrow> datetime" where
  "proposed_next_engine_time self = p_proposed_next_engine_time self"

definition current_engine_time :: "BackTestExecutionContext \<Rightarrow> datetime" where
  "current_engine_time self = p_current_time self"

definition engine_lag :: "datetime \<Rightarrow> BackTestExecutionContext \<Rightarrow> int" where
  "engine_lag reading self = reading - p_wall_clock_time_at_current_time self"

definition wall_clock_time :: "datetime \<Rightarrow> BackTestExecutionContext \<Rightarrow> datetime" where
  "wall_clock_time reading self = p_current_time self + engine_lag reading self"

definition push_has_pending_values :: "BackTestExecutionContext \<Rightarrow> bool" where
  "push_has_pending_values self = False"

definition reset_push_has_pending_values ::
  "BackTestExecutionContext \<Rightarrow> BackTestExecutionContext" where
  "reset_push_has_pending_values self = self"

subsection \<open>The engine\<close>

datatype RunMode = REAL_TIME | BACK_TEST

text \<open>The callbacks of \<open>GraphExecutorLifeCycleObserver\<close> (those on the graph without their argument).\<close>

datatype 'n event =
    on_before_start
  | on_after_start
  | on_before_stop
  | on_after_stop
  | on_before_evaluation
  | on_after_evaluation
  | on_before_node_evaluation 'n
  | on_after_node_evaluation 'n
  | on_before_start_node 'n
  | on_after_start_node 'n
  | on_before_stop_node 'n
  | on_after_stop_node 'n

text \<open>
  The calls the engine makes to the outside, in the order it makes them: a callback of the
  observer with the given number, a life-cycle method of a node, or a queued notification.
\<close>

datatype 'n call =
    Observer nat "'n event"
  | NodeStart 'n
  | NodeStop 'n
  | NodeEval 'n
  | Notification nat

text \<open>
  \<open>PythonGraphEngine\<close>. \<open>graph_nodes\<close> and \<open>push_source_nodes_end\<close> are \<open>self.graph.nodes\<close> and
  \<open>self.graph.push_source_nodes_end\<close> (the class \<open>Graph\<close> is missing from the sources).
  \<open>_start_time\<close> and \<open>_end_time\<close> hold datetimes, as they are declared; \<open>_scheduler\<close> and
  \<open>_execution_context\<close> can be \<open>None\<close>. Observers and queued notifications are named by
  numbers. Three fields are not attributes of the class: \<open>calls\<close> records the engine's calls
  to the outside, \<open>clock_reads\<close> counts the reads of \<open>datetime.now()\<close> so far, and \<open>world\<close> is
  whatever state the nodes keep.
\<close>

record ('n, 'w) PythonGraphEngine =
  graph_nodes :: "'n list"
  push_source_nodes_end :: nat
  is_started :: bool
  p_stop_requested :: bool
  p_start_time :: datetime
  p_end_time :: datetime
  p_scheduler :: "datetime list option"
  p_execution_context :: "BackTestExecutionContext option"
  p_run_mode :: RunMode
  p_life_cycle_observers :: "nat list"
  p_before_evaluation_notification :: "nat list"
  p_after_evaluation_notification :: "nat list"
  calls :: "'n call list"
  clock_reads :: nat
  world :: 'w

text \<open>
  A method that raises hands back the exception together with the engine as it was when the
  exception left the method, so that \<open>stop\<close> can still run on it.
\<close>

type_synonym ('n, 'w) outcome =
  "(error \<times> ('n, 'w) PythonGraphEngine) + ('n, 'w) PythonGraphEngine"

text \<open>
  What the engine is run against and does not define itself: the host's clock (\<open>datetime_now k\<close> is
  the reading of the \<open>k\<close>-th call of \<open>datetime.now()\<close>), the constants \<open>MIN_DT\<close> and \<open>MAX_DT\<close>,
  the nodes' \<open>start\<close>, \<open>stop\<close> and \<open>eval\<close> (user code, which may change the engine, for example
  by \<open>request_stop\<close>, and may raise), the unpacking \<open>scheduled_time, node = nodes[i]\<close> of an
  element of the graph's nodes (line 144; the class \<open>Node\<close> is missing from the sources), and
  the queued notification callables.
\<close>

record ('n, 'w) host =
  datetime_now :: "nat \<Rightarrow> datetime"
  MIN_DT :: datetime
  MAX_DT :: datetime
  node_start :: "'n \<Rightarrow> ('n, 'w) PythonGraphEngine \<Rightarrow> ('n, 'w) outcome"
  node_stop :: "'n \<Rightarrow> ('n, 'w) PythonGraphEngine \<Rightarrow> ('n, 'w) outcome"
  node_eval :: "'n \<Rightarrow> ('n, 'w) PythonGraphEngine \<Rightarrow> ('n, 'w) outcome"
  node_unpack :: "'n \<Rightarrow> error + (datetime \<times> 'n)"
  notification :: "nat \<Rightarrow> ('n, 'w) PythonGraphEngine \<Rightarrow> ('n, 'w) outcome"

definition read_clock ::
  "('n, 'w) host \<Rightarrow> ('n, 'w) PythonGraphEngine \<Rightarrow> datetime \<times> ('n, 'w) PythonGraphEngine" where
  "read_clock h self = (datetime_now h (clock_reads self), self\<lparr>clock_reads := Suc (clock_reads self)\<rparr>)"

definition record_call :: "'n call \<Rightarrow> ('n, 'w) PythonGraphEngine \<Rightarrow> ('n, 'w) PythonGraphEngine" where
  "record_call c self = self\<lparr>calls := calls self @ [c]\<rparr>"

text \<open>\<open>for life_cycle_observer in self._life_cycle_observers: life_cycle_observer.ev(...)\<close>\<close>

definition notify :: "'n event \<Rightarrow> ('n, 'w) PythonGraphEngine \<Rightarrow> ('n, 'w) PythonGraphEngine" where
  "notify ev self = self\<lparr>calls := calls self @ map (\<lambda>ob. Observer ob ev) (p_life_cycle_observers self)\<rparr>"

definition notify_before_start :: "('n, 'w) PythonGraphEngine \<Rightarrow> ('n, 'w) PythonGraphEngine" where
  "notify_before_start self = notify on_before_start self"

definition notify_after_start :: "('n, 'w) PythonGraphEngine \<Rightarrow> ('n, 'w) PythonGraphEngine" where
  "notify_after_start self = notify on_after_start self"

definition notify_before_stop :: "('n, 'w) PythonGraphEngine \<Rightarrow> ('n, 'w) PythonGraphEngine" where
  "notify_before_stop self = notify on_before_stop self"

definition notify_after_stop :: "('n, 'w) PythonGraphEngine \<Rightarrow> ('n, 'w) PythonGraphEngine" where
  "notify_after_stop self = notify on_after_stop self"

definition notify_before_start_node :: "'n \<Rightarrow> ('n, 'w) PythonGraphEngine \<Rightarrow> ('n, 'w) PythonGraphEngine" where
  "notify_before_start_node node self = notify (on_before_start_node node) self"

definition notify_after_start_node :: "'n \<Rightarrow> ('n, 'w) PythonGraphEngine \<Rightarrow> ('n, 'w) PythonGraphEngine" where
  "notify_after_start_node node self = notify (on_after_start_node node) self"

definition notify_before_stop_node :: "'n \<Rightarrow> ('n, 'w) PythonGraphEngine \<Rightarrow> ('n, 'w) PythonGraphEngine" where
  "notify_before_stop_node node self = notify (on_before_stop_node node) self"

definition notify_after_stop_node :: "'n \<Rightarrow> ('n, 'w) PythonGraphEngine \<Rightarrow> ('n, 'w) PythonGraphEngine" where
  "notify_after_stop_node node self = notify (on_after_stop_node node) self"

definition notify_before_node_evaluation :: "'n \<Rightarrow> ('n, 'w) PythonGraphEngine \<Rightarrow> ('n, 'w) PythonGraphEngine" where
  "notify_before_node_evaluation node self = notify (on_before_node_evaluation node) self"

definition notify_after_node_evaluation :: "'n \<Rightarrow> ('n, 'w) PythonGraphEngine \<Rightarrow> ('n, 'w) PythonGraphEngine" where
  "notify_after_node_evaluation node self = notify (on_after_node_evaluation node) self"

text \<open>The queued notification receivers are called in order; one that raises ends the loop.\<close>

fun call_receivers ::
  "('n, 'w) host \<Rightarrow> nat list \<Rightarrow> ('n, 'w) PythonGraphEngine \<Rightarrow> ('n, 'w) outcome" where
  "call_receivers h [] self = Inr self"
| "call_receivers h (r # rs) self =
     (case notification h r (record_call (Notification r) self) of
        Inl x \<Rightarrow> Inl x
      | Inr self1 \<Rightarrow> call_receivers h rs self1)"

definition notify_before_evaluation ::
  "('n, 'w) host \<Rightarrow> ('n, 'w) PythonGraphEngine \<Rightarrow> ('n, 'w) outcome" where
  "notify_before_evaluation h self =
     (case call_receivers h (p_before_evaluation_notification self) self of
        Inl x \<Rightarrow> Inl x
      | Inr self1 \<Rightarrow>
          Inr (notify on_before_evaluation (self1\<lparr>p_before_evaluation_notification := []\<rparr>)))"

definition notify_after_evaluation ::
  "('n, 'w) host \<Rightarrow> ('n, 'w) PythonGraphEngine \<Rightarrow> ('n, 'w) outcome" where
  "notify_after_evaluation h self =
     (case call_receivers h (p_after_evaluation_notification self) self of
        Inl x \<Rightarrow> Inl x
      | Inr self1 \<Rightarrow>
          Inr (notify on_after_evaluation (self1\<lparr>p_after_evaluation_notification := []\<rparr>)))"

definition initialise :: "('n, 'w) host \<Rightarrow> ('n, 'w) PythonGraphEngine \<Rightarrow> ('n, 'w) PythonGraphEngine" where
  "initialise h self = self\<lparr>p_scheduler := Some (replicate (length (graph_nodes self)) (MIN_DT h))\<rparr>"

definition request_stop :: "('n, 'w) PythonGraphEngine \<Rightarrow> ('n, 'w) PythonGraphEngine" where
  "request_stop self = self\<lparr>p_stop_requested := True\<rparr>"

text \<open>The loop of \<open>start\<close> over the graph's nodes.\<close>

fun start_nodes ::
  "('n, 'w) host \<Rightarrow> 'n list \<Rightarrow> ('n, 'w) PythonGraphEngine \<Rightarrow> ('n, 'w) outcome" where
  "start_nodes h [] self = Inr self"
| "start_nodes h (node # nodes) self =
     (case node_start h node (record_call (NodeStart node) (notify_before_start_node node self)) of
        Inl x \<Rightarrow> Inl x
      | Inr self1 \<Rightarrow> start_nodes h nodes (notify_after_start_node node self1))"

definition start :: "('n, 'w) host \<Rightarrow> ('n, 'w) PythonGraphEngine \<Rightarrow> ('n, 'w) outcome" where
  "start h self =
     (if \<not> is_started self then
        (let self1 = self\<lparr>is_started := True, p_stop_requested := False\<rparr> in
         case p_run_mode self1 of
           REAL_TIME \<Rightarrow> Inl (NotImplementedError, self1)
         | BACK_TEST \<Rightarrow>
             (let (reading, self2) = read_clock h self1;
                  self3 = self2\<lparr>p_execution_context :=
                            Some (BackTestExecutionContext_init (MAX_DT h) reading (p_start_time self2))\<rparr>
              in case start_nodes h (graph_nodes self3) (notify_before_start self3) of
                   Inl x \<Rightarrow> Inl x
                 | Inr self4 \<Rightarrow> Inr (notify_after_start self4)))
      else Inr self)"

text \<open>The loop of \<open>stop\<close> over the graph's nodes, with the callbacks of lines 103 and 105.\<close>

fun stop_nodes ::
  "('n, 'w) host \<Rightarrow> 'n list \<Rightarrow> ('n, 'w) PythonGraphEngine \<Rightarrow> ('n, 'w) outcome" where
  "stop_nodes h [] self = Inr self"
| "stop_nodes h (node # nodes) self =
     (case node_stop h node (record_call (NodeStop node) (notify_before_stop_node node self)) of
        Inl x \<Rightarrow> Inl x
      | Inr self1 \<Rightarrow> stop_nodes h nodes (notify_before_start_node node self1))"

definition stop :: "('n, 'w) host \<Rightarrow> ('n, 'w) PythonGraphEngine \<Rightarrow> ('n, 'w) outcome" where
  "stop h self =
     (if is_started self then
        (case stop_nodes h (graph_nodes self) (notify_before_stop (self\<lparr>is_started := False\<rparr>)) of
           Inl x \<Rightarrow> Inl x
         | Inr self1 \<Rightarrow> Inr ((notify_after_stop self1)\<lparr>p_execution_context := None\<rparr>))
      else Inr self)"

text \<open>
  \<open>self._execution_context.current_engine_time = v\<close>: the setter reads the clock.
\<close>

definition assign_current_engine_time ::
  "('n, 'w) host \<Rightarrow> datetime \<Rightarrow> BackTestExecutionContext \<Rightarrow> ('n, 'w) PythonGraphEngine
     \<Rightarrow> ('n, 'w) PythonGraphEngine" where
  "assign_current_engine_time h v ctx self =
     (let (reading, self1) = read_clock h self
      in self1\<lparr>p_execution_context := Some (set_current_engine_time reading v ctx)\<rparr>)"

definition advance_engine_time ::
  "('n, 'w) host \<Rightarrow> ('n, 'w) PythonGraphEngine \<Rightarrow> ('n, 'w) outcome" where
  "advance_engine_time h self =
     (case p_execution_context self of
        None \<Rightarrow> Inl (AttributeError ''NoneType object has no attribute'', self)
      | Some ctx \<Rightarrow>
          if p_stop_requested self then
            Inr (assign_current_engine_time h (p_end_time self) ctx self)
          else
            (let proposed = proposed_next_engine_time ctx;
                 (reading, self1) = read_clock h self;
                 wall = wall_clock_time reading ctx
             in if wall \<ge> proposed then
                  Inr (assign_current_engine_time h proposed ctx self1)
                else if push_has_pending_values ctx then
                  Inr (assign_current_engine_time h wall ctx self1)
                else
                  Inr (self1\<lparr>p_execution_context :=
                              Some (wait_until_proposed_engine_time proposed ctx)\<rparr>)))"

text \<open>The first loop of \<open>evaluate_graph\<close>: \<open>nodes[i].eval()\<close> for \<open>i\<close> below \<open>push_source_nodes_end\<close>.\<close>

fun eval_push_nodes ::
  "('n, 'w) host \<Rightarrow> 'n list \<Rightarrow> nat list \<Rightarrow> ('n, 'w) PythonGraphEngine \<Rightarrow> ('n, 'w) outcome" where
  "eval_push_nodes h nodes [] self = Inr self"
| "eval_push_nodes h nodes (i # is) self =
     (if i < length nodes then
        (case node_eval h (nodes ! i) (record_call (NodeEval (nodes ! i)) self) of
           Inl x \<Rightarrow> Inl x
         | Inr self1 \<Rightarrow> eval_push_nodes h nodes is self1)
      else Inl (IndexError, self))"

text \<open>The second loop, over the elements from \<open>push_source_nodes_end\<close> on.\<close>

fun eval_scheduled_nodes ::
  "('n, 'w) host \<Rightarrow> datetime \<Rightarrow> 'n list \<Rightarrow> ('n, 'w) PythonGraphEngine \<Rightarrow> ('n, 'w) outcome" where
  "eval_scheduled_nodes h now_t [] self = Inr self"
| "eval_scheduled_nodes h now_t (item # items) self =
     (case node_unpack h item of
        Inl e \<Rightarrow> Inl (e, self)
      | Inr (scheduled_time, node) \<Rightarrow>
          if scheduled_time = now_t then
            (case node_eval h node (record_call (NodeEval node) (notify_before_node_evaluation node self)) of
               Inl x \<Rightarrow> Inl x
             | Inr self1 \<Rightarrow> eval_scheduled_nodes h now_t items (notify_after_node_evaluation node self1))
          else eval_scheduled_nodes h now_t items self)"

definition evaluate_graph ::
  "('n, 'w) host \<Rightarrow> ('n, 'w) PythonGraphEngine \<Rightarrow> ('n, 'w) outcome" where
  "evaluate_graph h self =
     (case notify_before_evaluation h self of
        Inl x \<Rightarrow> Inl x
      | Inr self1 \<Rightarrow>
          (case p_execution_context self1 of
             None \<Rightarrow> Inl (AttributeError ''NoneType object has no attribute'', self1)
           | Some ctx \<Rightarrow>
               (let now_t = current_engine_time ctx;
                    nodes = graph_nodes self1;
                    pushed =
                      (if push_has_pending_values ctx then
                         eval_push_nodes h nodes [0 ..< push_source_nodes_end self1]
                           (self1\<lparr>p_execution_context := Some (reset_push_has_pending_values ctx)\<rparr>)
                       else Inr self1)
                in case pushed of
                     Inl x \<Rightarrow> Inl x
                   | Inr self2 \<Rightarrow>
                       (case eval_scheduled_nodes h now_t
                               (drop (push_source_nodes_end self2) nodes) self2 of
                          Inl x \<Rightarrow> Inl x
                        | Inr self3 \<Rightarrow> notify_after_evaluation h self3))))"

text \<open>
  The \<open>while\<close> loop of \<open>run\<close>, with the local \<open>end_time\<close>. The loop need not end, so it is given
  fuel: one unit for each test of the loop condition, and \<open>None\<close> when the fuel is used up
  before the loop has ended.
\<close>

fun run_loop ::
  "nat \<Rightarrow> ('n, 'w) host \<Rightarrow> datetime \<Rightarrow> ('n, 'w) PythonGraphEngine \<Rightarrow> ('n, 'w) outcome option" where
  "run_loop 0 h end_time self = None"
| "run_loop (Suc fuel) h end_time self =
     (case p_execution_context self of
        None \<Rightarrow> Some (Inl (AttributeError ''NoneType object has no attribute'', self))
      | Some ctx \<Rightarrow>
          if current_engine_time ctx \<le> end_time then
            (case evaluate_graph h self of
               Inl x \<Rightarrow> Some (Inl x)
             | Inr self1 \<Rightarrow>
                 (case advance_engine_time h self1 of
                    Inl x \<Rightarrow> Some (Inl x)
                  | Inr self2 \<Rightarrow> run_loop fuel h end_time self2))
          else Some (Inr self))"




subsection \<open>Engines and hosts to run\<close>

text \<open>
  \<open>__init__(graph, run_mode)\<close>: the graph and the run mode are given, every other attribute
  has its class default (the two times, \<open>None\<close> in the source until \<open>run\<close> assigns them, start
  at 0 here).
\<close>

definition PythonGraphEngine_init ::
  "'n list \<Rightarrow> nat \<Rightarrow> RunMode \<Rightarrow> 'w \<Rightarrow> ('n, 'w) PythonGraphEngine" where
  "PythonGraphEngine_init nodes push_end mode w =
     \<lparr>graph_nodes = nodes, push_source_nodes_end = push_end, is_started = False,
      p_stop_requested = False, p_start_time = 0, p_end_time = 0, p_scheduler = None,
      p_execution_context = None, p_run_mode = mode, p_life_cycle_observers = [],
      p_before_evaluation_notification = [], p_after_evaluation_notification = [],
      calls = [], clock_reads = 0, world = w\<rparr>"

definition add_life_cycle_observer ::
  "nat \<Rightarrow> ('n, 'w) PythonGraphEngine \<Rightarrow> ('n, 'w) PythonGraphEngine" where
  "add_life_cycle_observer observer self =
     self\<lparr>p_life_cycle_observers := p_life_cycle_observers self @ [observer]\<rparr>"

text \<open>What an outcome shows: the calls made to the outside, and the exception if there is one.\<close>

definition calls_of :: "('n, 'w) outcome \<Rightarrow> 'n call list" where
  "calls_of r = (case r of Inl (e, self) \<Rightarrow> calls self | Inr self \<Rightarrow> calls self)"

definition error_of :: "('n, 'w) outcome \<Rightarrow> error option" where
  "error_of r = (case r of Inl (e, self) \<Rightarrow> Some e | Inr self \<Rightarrow> None)"

text \<open>
  A host whose nodes do nothing: the clock advances by one at each reading, \<open>MIN_DT\<close> is 0 and
  \<open>MAX_DT\<close> is 1000, and every node unpacks to the scheduled time 0 and itself.
\<close>

definition quiet_host :: "(nat, unit) host" where
  "quiet_host =
     \<lparr>datetime_now = (\<lambda>k. int k), MIN_DT = 0, MAX_DT = 1000,
      node_start = (\<lambda>n s. Inr s), node_stop = (\<lambda>n s. Inr s), node_eval = (\<lambda>n s. Inr s),
      node_unpack = (\<lambda>n. Inr (0, n)), notification = (\<lambda>r s. Inr s)\<rparr>"

text \<open>The same host, except that a node's \<open>eval\<close> calls \<open>request_stop()\<close> on the engine.\<close>

definition stopping_host :: "(nat, unit) host" where
  "stopping_host = quiet_host\<lparr>node_eval := (\<lambda>n s. Inr (request_stop s))\<rparr>"

text \<open>An engine on a graph of the one node 7 (not a push source), watched by observer 0.\<close>

definition observed_engine :: "RunMode \<Rightarrow> (nat, unit) PythonGraphEngine" where
  "observed_engine mode = add_life_cycle_observer 0 (PythonGraphEngine_init [7] 0 mode ())"

text \<open>That engine as \<open>start\<close> leaves it in a run from 0 to 10, with no call recorded yet.\<close>

definition started_engine :: "(nat, unit) PythonGraphEngine" where
  "started_engine =
     \<lparr>graph_nodes = [7], push_source_nodes_end = 0, is_started = True,
      p_stop_requested = False, p_start_time = 0, p_end_time = 10, p_scheduler = None,
      p_execution_context =
        Some \<lparr>p_current_time = 0, p_wall_clock_time_at_current_time = 0,
              p_proposed_next_engine_time = 1000\<rparr>,
      p_run_mode = BACK_TEST, p_life_cycle_observers = [0],
      p_before_evaluation_notification = [], p_after_evaluation_notification = [],
      calls = [], clock_reads = 1, world = ()\<rparr>"


subsection \<open>The proposed next engine time in the spec's words\<close>

text \<open>
  "\<open>proposed_next_engine_time\<close> is the minimum over all non-push nodes of their scheduler slot":
  the slots from \<open>push_source_nodes_end\<close> on.
\<close>

definition spec_proposed_next_engine_time :: "nat \<Rightarrow> datetime list \<Rightarrow> datetime" where
  "spec_proposed_next_engine_time push_end slots = Min (set (drop push_end slots))"

text \<open>The operations of the context that change it, and a sequence of them applied in order.\<close>

datatype context_call =
    Set_current_engine_time datetime datetime
  | Wait_until_proposed_engine_time datetime
  | Reset_push_has_pending_values

fun do_context_call :: "BackTestExecutionContext \<Rightarrow> context_call \<Rightarrow> BackTestExecutionContext" where
  "do_context_call self (Set_current_engine_time reading v) = set_current_engine_time reading v self"
| "do_context_call self (Wait_until_proposed_engine_time t) = wait_until_proposed_engine_time t self"
| "do_context_call self Reset_push_has_pending_values = reset_push_has_pending_values self"

section \<open>Graph builder (\<open>hg/_impl/_builder/_graph_builder.py\<close>)\<close>

text \<open>
  Modelled from the spec: the classes \<open>Node\<close>, \<open>TimeSeriesOutput\<close>, \<open>TimeSeriesInput\<close>,
  \<open>NodeBuilder\<close>, \<open>Edge\<close> and \<open>GraphImpl\<close> are missing. A node has an output root and an input
  root, both optional; an output or input is reached from its root by a path, an "ordered
  sequence of field names or indices", each item selecting a child (a missing index is an
  error); each input stores "a bound output (possibly null)". Outputs are named by numbers,
  so that an input's bound output is the number of the output attached to it.
\<close>

datatype output_tree = Output (output_id: nat) (output_children: "output_tree list")

datatype input_tree = Input (bound_output: "nat option") (input_children: "input_tree list")

record Node =
  node_output :: "output_tree option"
  node_input :: "input_tree option"
  initialised :: bool

record Edge =
  src_node :: int
  dst_node :: int
  output_path :: "nat list"
  input_path :: "nat list"

text \<open>
  A node builder's \<open>make_instance\<close> is a function of the graph identifier that returns a node
  or raises.
\<close>

record PythonGraphBuilder =
  node_builders :: "(int list \<Rightarrow> error + Node) list"
  edges :: "Edge list"

record GraphImpl =
  impl_graph_id :: "int list"
  impl_nodes :: "Node list"

text \<open>\<open>xs[i]\<close> on a Python list: a negative index counts from the end; the position or IndexError.\<close>

definition list_position :: "'a list \<Rightarrow> int \<Rightarrow> error + nat" where
  "list_position xs i =
     (if 0 \<le> i \<and> i < int (length xs) then Inr (nat i)
      else if i < 0 \<and> - int (length xs) \<le> i then Inr (nat (int (length xs) + i))
      else Inl IndexError)"

text \<open>\<open>output[item]\<close> and \<open>input[item]\<close>.\<close>

definition output_getitem :: "output_tree \<Rightarrow> nat \<Rightarrow> error + output_tree" where
  "output_getitem out item =
     (if item < length (output_children out) then Inr (output_children out ! item)
      else Inl IndexError)"

definition input_getitem :: "input_tree \<Rightarrow> nat \<Rightarrow> error + input_tree" where
  "input_getitem inp item =
     (if item < length (input_children inp) then Inr (input_children inp ! item)
      else Inl IndexError)"

text \<open>The loops \<open>for item in path: output = output[item]\<close> of the two extractors.\<close>

fun walk_output :: "output_tree \<Rightarrow> nat list \<Rightarrow> error + output_tree" where
  "walk_output out [] = Inr out"
| "walk_output out (item # path) =
     (case output_getitem out item of Inl e \<Rightarrow> Inl e | Inr out1 \<Rightarrow> walk_output out1 path)"

fun walk_input :: "input_tree \<Rightarrow> nat list \<Rightarrow> error + input_tree" where
  "walk_input inp [] = Inr inp"
| "walk_input inp (item # path) =
     (case input_getitem inp item of Inl e \<Rightarrow> Inl e | Inr inp1 \<Rightarrow> walk_input inp1 path)"

text \<open>On a node without an output (or input) root, the first \<open>[item]\<close> raises TypeError.\<close>

definition extract_output :: "Node \<Rightarrow> nat list \<Rightarrow> error + output_tree" where
  "extract_output node path =
     (if path = [] then Inl (RuntimeError ''No path to find an output for'')
      else case node_output node of
             None \<Rightarrow> Inl (TypeError ''NoneType object is not subscriptable'')
           | Some out \<Rightarrow> walk_output out path)"

definition extract_input :: "Node \<Rightarrow> nat list \<Rightarrow> error + input_tree" where
  "extract_input node path =
     (if path = [] then Inl (RuntimeError ''No path to find an input for'')
      else case node_input node of
             None \<Rightarrow> Inl (TypeError ''NoneType object is not subscriptable'')
           | Some inp \<Rightarrow> walk_input inp path)"

text \<open>
  \<open>input_.output = output\<close> assigns to the input object that the path reaches inside the
  node: the input tree with the bound output replaced at that path (left as it is where the
  path leads nowhere, which \<open>extract_input\<close> has excluded before).
\<close>

fun bind_at :: "nat list \<Rightarrow> nat \<Rightarrow> input_tree \<Rightarrow> input_tree" where
  "bind_at [] out (Input b cs) = Input (Some out) cs"
| "bind_at (item # path) out (Input b cs) =
     (if item < length cs then Input b (cs[item := bind_at path out (cs ! item)])
      else Input b cs)"

text \<open>The body of the loop over the edges.\<close>

definition wire_edge :: "Node list \<Rightarrow> Edge \<Rightarrow> error + Node list" where
  "wire_edge ns edge =
     (case list_position ns (src_node edge) of
        Inl e \<Rightarrow> Inl e
      | Inr src \<Rightarrow>
          (case list_position ns (dst_node edge) of
             Inl e \<Rightarrow> Inl e
           | Inr dst \<Rightarrow>
               (case extract_output (ns ! src) (output_path edge) of
                  Inl e \<Rightarrow> Inl e
                | Inr out \<Rightarrow>
                    (case extract_input (ns ! dst) (input_path edge) of
                       Inl e \<Rightarrow> Inl e
                     | Inr inp \<Rightarrow>
                         Inr (ns[dst := (ns ! dst)\<lparr>node_input :=
                                map_option (bind_at (input_path edge) (output_id out))
                                  (node_input (ns ! dst))\<rparr>])))))"

fun wire_edges :: "Node list \<Rightarrow> Edge list \<Rightarrow> error + Node list" where
  "wire_edges ns [] = Inr ns"
| "wire_edges ns (edge # es) =
     (case wire_edge ns edge of Inl e \<Rightarrow> Inl e | Inr ns1 \<Rightarrow> wire_edges ns1 es)"

text \<open>\<open>[nb.make_instance(graph_id) for nb in self.node_builders]\<close>\<close>

fun make_nodes :: "(int list \<Rightarrow> error + Node) list \<Rightarrow> int list \<Rightarrow> error + Node list" where
  "make_nodes [] gid = Inr []"
| "make_nodes (nb # nbs) gid =
     (case nb gid of
        Inl e \<Rightarrow> Inl e
      | Inr node \<Rightarrow> (case make_nodes nbs gid of Inl e \<Rightarrow> Inl e | Inr ns \<Rightarrow> Inr (node # ns)))"

definition node_initialise :: "Node \<Rightarrow> Node" where
  "node_initialise node = node\<lparr>initialised := True\<rparr>"

definition make_instance :: "PythonGraphBuilder \<Rightarrow> int list \<Rightarrow> error + GraphImpl" where
  "make_instance self gid =
     (case make_nodes (node_builders self) gid of
        Inl e \<Rightarrow> Inl e
      | Inr ns \<Rightarrow>
          (case wire_edges ns (edges self) of
             Inl e \<Rightarrow> Inl e
           | Inr ns1 \<Rightarrow> Inr \<lparr>impl_graph_id = gid, impl_nodes = map node_initialise ns1\<rparr>))"

text \<open>
  Two builders of a source node with one output child and a sink node with one input child:
  the first wires the child output to the child input, the second names the input by the
  empty path.
\<close>

definition source_node :: Node where
  "source_node = \<lparr>node_output = Some (Output 0 [Output 1 []]), node_input = None, initialised = False\<rparr>"

definition sink_node :: Node where
  "sink_node = \<lparr>node_output = None, node_input = Some (Input None [Input None []]), initialised = False\<rparr>"

definition wired_builder :: PythonGraphBuilder where
  "wired_builder =
     \<lparr>node_builders = [\<lambda>gid. Inr source_node, \<lambda>gid. Inr sink_node],
      edges = [\<lparr>src_node = 0, dst_node = 1, output_path = [0], input_path = [0]\<rparr>]\<rparr>"

definition pathless_builder :: PythonGraphBuilder where
  "pathless_builder =
     \<lparr>node_builders = [\<lambda>gid. Inr source_node, \<lambda>gid. Inr sink_node],
      edges = [\<lparr>src_node = 0, dst_node = 1, output_path = [0], input_path = []\<rparr>]\<rparr>"

section \<open>Topological ranking (\<open>hgraph/_wiring/_graph_builder.py\<close>)\<close>


text \<open>
  The local variables of \<open>toposort\<close>. The dictionary \<open>processed_nodes\<close> keeps its keys in the
  order of insertion: an association list, updated in place or extended at the end. A Python
  set is a list without repetitions, in the order of insertion (the order in which Python
  iterates over a set is not specified). The deque \<open>nodes_to_process\<close> is a list with its left
  end first.
\<close>

record 'n toposort_state =
  mapping :: "'n \<Rightarrow> 'n list"
  nodes_to_process :: "'n list"
  source_nodes :: "'n list"
  processed_nodes :: "('n \<times> nat) list"
  max_rank :: nat

definition set_add :: "'a \<Rightarrow> 'a list \<Rightarrow> 'a list" where
  "set_add x xs = (if x \<in> set xs then xs else xs @ [x])"


















subsection \<open>What the proofs about the ranking speak of\<close>


text \<open>The edges recorded in \<open>mapping\<close>, the keys of \<open>processed_nodes\<close>, and the rank of a node.\<close>

definition mapping_edges :: "'n toposort_state \<Rightarrow> ('n \<times> 'n) set" where
  "mapping_edges s = {(from_node, to_node). to_node \<in> set (mapping s from_node)}"


definition rank_of :: "('n \<times> nat) list \<Rightarrow> 'n \<Rightarrow> nat" where
  "rank_of ps n = (case map_of ps n of None \<Rightarrow> 0 | Some r \<Rightarrow> r)"




section \<open>Properties of the set output\<close>

lemma p_added_apply_result_mark [simp]: "p_added (apply_result_mark now self) = p_added self"
  by (simp add: apply_result_mark_def mark_modified_def)

lemma p_removed_apply_result_mark [simp]: "p_removed (apply_result_mark now self) = p_removed self"
  by (simp add: apply_result_mark_def mark_modified_def)

lemma p_value_apply_result_mark [simp]: "p_value (apply_result_mark now self) = p_value self"
  by (simp add: apply_result_mark_def mark_modified_def)

lemma filtered_disjoint: "{e \<in> R. e \<in> V} \<inter> {e \<in> A. e \<notin> V} = {}"
  by blast

text \<open>
  Claim C6, as the code has it. \<open>apply_result(d)\<close> followed by \<open>delta_value\<close> in the same tick
  never fails and returns the delta that was recorded: the added elements of \<open>d\<close> that were not
  in the value before, and the removed elements of \<open>d\<close> that were in it. This is \<open>d\<close> itself
  exactly when no added element of \<open>d\<close> was already a member and every removed element was one.
\<close>

theorem apply_result_delta_value_filtered:
  "apply_then_delta now d self =
     Inr \<lparr>added = added d - p_value self, removed = removed d \<inter> p_value self\<rparr>
   \<and> ((apply_then_delta now d self = Inr d)
        = (added d \<inter> p_value self = {} \<and> removed d \<subseteq> p_value self))"
proof -
  have eq: "apply_then_delta now d self =
      Inr \<lparr>added = added d - p_value self, removed = removed d \<inter> p_value self\<rparr>"
  proof -
    have a: "{e \<in> added d. e \<notin> p_value self} = added d - p_value self" by blast
    have r: "{e \<in> removed d. e \<in> p_value self} = removed d \<inter> p_value self" by blast
    have dj: "removed d \<inter> p_value self \<inter> (added d - p_value self) = {}" by blast
    show ?thesis
      by (simp add: apply_then_delta_def apply_result_def delta_value_def Let_def
          added_elements_def removed_elements_def a r dj)
  qed
  have "(\<lparr>added = added d - p_value self, removed = removed d \<inter> p_value self\<rparr> = d)
        = (added d \<inter> p_value self = {} \<and> removed d \<subseteq> p_value self)"
  proof -
    have "(\<lparr>added = added d - p_value self, removed = removed d \<inter> p_value self\<rparr> = d)
          = (added d - p_value self = added d \<and> removed d \<inter> p_value self = removed d)"
      by (cases d) auto
    also have "\<dots> = (added d \<inter> p_value self = {} \<and> removed d \<subseteq> p_value self)"
      by blast
    finally show ?thesis .
  qed
  with eq show ?thesis by simp
qed

theorem apply_result_delta_value_filtered_witness:
  "apply_then_delta 5 \<lparr>added = {3::nat}, removed = {1}\<rparr>
      \<lparr>p_value = {1, 2}, p_added = None, p_removed = None, valid = True,
       last_modified_time = 0, queued_resets = 0\<rparr>
     = Inr \<lparr>added = {3}, removed = {1}\<rparr>"
  using apply_result_delta_value_filtered [of 5 "\<lparr>added = {3::nat}, removed = {1}\<rparr>"
      "\<lparr>p_value = {1, 2}, p_added = None, p_removed = None, valid = True,
       last_modified_time = 0, queued_resets = 0\<rparr>"]
  by simp

text \<open>
  Claim C6 as stated fails: with the value \<open>{1}\<close>, applying the delta that adds \<open>1\<close> again reads
  back the empty delta, which is not the delta that was applied.
\<close>

theorem apply_result_delta_value_counterexample:
  "apply_then_delta 5 \<lparr>added = {1::nat}, removed = {}\<rparr>
      \<lparr>p_value = {1}, p_added = None, p_removed = None, valid = True,
       last_modified_time = 0, queued_resets = 0\<rparr>
     = Inr \<lparr>added = {}, removed = {}\<rparr>
   \<and> \<lparr>added = {}, removed = {}\<rparr> \<noteq> \<lparr>added = {1::nat}, removed = {}\<rparr>"
  by (simp add: apply_then_delta_def apply_result_def delta_value_def Let_def
      added_elements_def removed_elements_def)

text \<open>
  Claim C9. For every prior value and every set delta handed to \<open>apply_result\<close>, the filtered
  added set and the filtered removed set are disjoint, and \<open>apply_result\<close> returns normally:
  the ValueError of the intersection test is never raised (nor is any other error, whatever
  the result handed in).
\<close>

theorem apply_result_filtered_sets_disjoint:
  "{e \<in> removed_elements d. e \<in> p_value self} \<inter> {e \<in> added_elements d. e \<notin> p_value self} = {}
   \<and> (\<exists>self'. apply_result now (RSetDelta d) self = Inr self')
   \<and> apply_result now result self \<noteq> Inl (ValueError ''Cannot remove and add the same element'')"
proof -
  have dj: "{e \<in> removed_elements d. e \<in> p_value self}
            \<inter> {e \<in> added_elements d. e \<notin> p_value self} = {}"
    by (rule filtered_disjoint)
  have ok: "\<exists>self'. apply_result now (RSetDelta d) self = Inr self'"
    by (simp add: apply_result_def Let_def dj)
  have "apply_result now result self \<noteq> Inl (ValueError ''Cannot remove and add the same element'')"
  proof (cases result)
    case RNone
    then show ?thesis by (simp add: apply_result_def)
  next
    case (RSetDelta d')
    have "{e \<in> removed_elements d'. e \<in> p_value self}
            \<inter> {e \<in> added_elements d'. e \<notin> p_value self} = {}"
      by (rule filtered_disjoint)
    with RSetDelta show ?thesis by (simp add: apply_result_def Let_def)
  next
    case (RSet s)
    then show ?thesis by (simp add: apply_result_def Let_def)
  qed
  with dj ok show ?thesis by blast
qed

section \<open>Properties of the bundle input\<close>

text \<open>
  Claim C7. A bundle input bound to a peer output has the peer output's valid flag; a bundle
  input without a peer is valid exactly when one of its child inputs is.
\<close>

theorem bundle_input_valid:
  "has_peer (BundleInput (Some out) cs)
   \<and> input_valid (BundleInput (Some out) cs) = output_valid out
   \<and> \<not> has_peer (BundleInput None cs)
   \<and> input_valid (BundleInput None cs) = list_ex input_valid (map snd cs)"
  by (simp add: has_peer_def base_bound_def base_valid_def)

theorem bundle_input_valid_witness:
  "input_valid (BundleInput (Some \<lparr>output_valid = True\<rparr>) [(''a'', PlainInput None)]) = True
   \<and> input_valid (BundleInput None
        [(''a'', PlainInput None), (''b'', PlainInput (Some \<lparr>output_valid = True\<rparr>))]) = True
   \<and> input_valid (BundleInput None [(''a'', PlainInput (Some \<lparr>output_valid = False\<rparr>))]) = False"
  using bundle_input_valid [of "\<lparr>output_valid = True\<rparr>" "[(''a'', PlainInput None)]"]
    bundle_input_valid [of undefined
      "[(''a'', PlainInput None), (''b'', PlainInput (Some \<lparr>output_valid = True\<rparr>))]"]
    bundle_input_valid [of undefined "[(''a'', PlainInput (Some \<lparr>output_valid = False\<rparr>))]"]
  by (simp add: base_valid_def)

section \<open>Properties of the graph engine\<close>

lemmas engine_simps =
  PythonGraphEngine_init_def add_life_cycle_observer_def quiet_host_def stopping_host_def
  observed_engine_def start_def stop_def notify_def notify_before_start_def notify_after_start_def
  notify_before_stop_def notify_after_stop_def notify_before_start_node_def
  notify_after_start_node_def notify_before_stop_node_def notify_after_stop_node_def
  notify_before_node_evaluation_def notify_after_node_evaluation_def
  notify_before_evaluation_def notify_after_evaluation_def read_clock_def record_call_def
  BackTestExecutionContext_init_def set_current_engine_time_def
  wait_until_proposed_engine_time_def proposed_next_engine_time_def current_engine_time_def
  engine_lag_def wall_clock_time_def push_has_pending_values_def
  reset_push_has_pending_values_def assign_current_engine_time_def advance_engine_time_def
  evaluate_graph_def request_stop_def initialise_def calls_of_def error_of_def Let_def

subsection \<open>Stopping a run\<close>

text \<open>When the loop of \<open>run\<close> ends normally, the engine time is past the end time.\<close>

lemma run_loop_normal_exit:
  "run_loop fuel h end_time self = Some (Inr self') \<Longrightarrow>
     \<exists>ctx. p_execution_context self' = Some ctx \<and> end_time < current_engine_time ctx"
proof (induction fuel arbitrary: self)
  case 0
  then show ?case by simp
next
  case (Suc fuel)
  then show ?case
    by (auto split: option.splits if_splits sum.splits)
qed





subsection \<open>Advancing the engine time\<close>

text \<open>
  Claim C2. On an engine with an execution context, \<open>advance_engine_time\<close> returns normally and
  leaves the context decided in this order: with \<open>stop_requested\<close>, the current engine time is
  assigned the end time; otherwise, with \<open>p\<close> the proposed next engine time and \<open>w\<close> the wall
  clock time, if \<open>w \<ge> p\<close> it is assigned \<open>p\<close>; otherwise, if \<open>push_has_pending_values\<close>, it is
  assigned \<open>w\<close>; otherwise \<open>wait_until_proposed_engine_time(p)\<close> is called. (Each assignment
  goes through the setter, which reads the clock once more.) The second part gives the engine
  time that results in each case.
\<close>

theorem advance_engine_time_precedence:
  "\<exists>self'. advance_engine_time h (self\<lparr>p_execution_context := Some ctx\<rparr>) = Inr self'
     \<and> p_execution_context self' = Some
        (let p = proposed_next_engine_time ctx;
             w = wall_clock_time (datetime_now h (clock_reads self)) ctx
         in if p_stop_requested self then
              set_current_engine_time (datetime_now h (clock_reads self)) (p_end_time self) ctx
            else if w \<ge> p then
              set_current_engine_time (datetime_now h (Suc (clock_reads self))) p ctx
            else if push_has_pending_values ctx then
              set_current_engine_time (datetime_now h (Suc (clock_reads self))) w ctx
            else wait_until_proposed_engine_time p ctx)
     \<and> map_option current_engine_time (p_execution_context self') = Some
        (let p = proposed_next_engine_time ctx;
             w = wall_clock_time (datetime_now h (clock_reads self)) ctx
         in if p_stop_requested self then p_end_time self
            else if w \<ge> p then p
            else if push_has_pending_values ctx then w
            else p)"
  by (simp add: advance_engine_time_def assign_current_engine_time_def read_clock_def Let_def
      current_engine_time_def set_current_engine_time_def wait_until_proposed_engine_time_def)

subsection \<open>The proposed next engine time\<close>

lemma context_call_proposed:
  "proposed_next_engine_time (do_context_call self c) = proposed_next_engine_time self"
  by (cases c) (simp_all add: proposed_next_engine_time_def set_current_engine_time_def
      wait_until_proposed_engine_time_def reset_push_has_pending_values_def)

lemma foldl_context_call_proposed:
  "proposed_next_engine_time (foldl do_context_call self cs) = proposed_next_engine_time self"
  by (induction cs arbitrary: self) (simp_all add: context_call_proposed)

text \<open>
  Claim C3, as the code has it. The proposed next engine time of a back-test execution context
  is the attribute set to \<open>MAX_DT\<close> when the context is created; no operation of the context
  changes it, so it is \<open>MAX_DT\<close> after any sequence of them, whatever the scheduler holds.
\<close>

theorem proposed_next_engine_time_constant:
  "proposed_next_engine_time
     (foldl do_context_call (BackTestExecutionContext_init max_dt reading current_time) cs) = max_dt"
  by (simp add: foldl_context_call_proposed)
     (simp add: proposed_next_engine_time_def BackTestExecutionContext_init_def)

text \<open>
  Claim C3 as stated fails: after \<open>initialise\<close> and \<open>start\<close> of the engine with one non-push
  node, the node's scheduler slot is \<open>MIN_DT\<close>, which is the minimum over the non-push nodes'
  slots, while the proposed next engine time is \<open>MAX_DT\<close>.
\<close>

theorem proposed_next_engine_time_counterexample:
  "(case start quiet_host (initialise quiet_host (observed_engine BACK_TEST)) of
      Inl x \<Rightarrow> False
    | Inr self \<Rightarrow>
        (case (p_execution_context self, p_scheduler self) of
           (Some ctx, Some slots) \<Rightarrow>
              slots = [MIN_DT quiet_host]
              \<and> spec_proposed_next_engine_time (push_source_nodes_end self) slots = MIN_DT quiet_host
              \<and> proposed_next_engine_time ctx = MAX_DT quiet_host
              \<and> proposed_next_engine_time ctx
                  \<noteq> spec_proposed_next_engine_time (push_source_nodes_end self) slots
         | _ \<Rightarrow> False))"
  by (simp add: engine_simps spec_proposed_next_engine_time_def)

subsection \<open>The callbacks of \<open>stop\<close>\<close>

text \<open>
  Claim C5, at the started engine of one node with one observer. \<open>stop\<close> calls the observer's
  \<open>on_before_stop_node\<close>, then the node's \<open>stop\<close>, and then the observer's
  \<open>on_before_start_node\<close>: \<open>on_after_stop_node\<close> is not called.
\<close>

theorem stop_calls_on_before_start_node:
  "map_sum (\<lambda>x. calls (snd x)) calls (stop quiet_host started_engine) =
     Inr [Observer 0 on_before_stop, Observer 0 (on_before_stop_node 7), NodeStop 7,
          Observer 0 (on_before_start_node 7), Observer 0 on_after_stop]"
  by (simp add: engine_simps started_engine_def)

subsection \<open>The time range of \<open>run\<close>\<close>






section \<open>Properties of the graph builder\<close>

lemma wire_edge_paths:
  "wire_edge ns edge = Inr ns1 \<Longrightarrow> output_path edge \<noteq> [] \<and> input_path edge \<noteq> []"
  by (auto simp: wire_edge_def extract_output_def extract_input_def split: sum.splits if_splits)

lemma wire_edges_paths:
  "wire_edges ns es = Inr ns1 \<Longrightarrow> \<forall>e\<in>set es. output_path e \<noteq> [] \<and> input_path e \<noteq> []"
proof (induction es arbitrary: ns)
  case Nil
  then show ?case by simp
next
  case (Cons edge es)
  from Cons.prems obtain ns' where w: "wire_edge ns edge = Inr ns'" "wire_edges ns' es = Inr ns1"
    by (auto split: sum.splits)
  from wire_edge_paths [OF w(1)] Cons.IH [OF w(2)] show ?case by simp
qed

text \<open>
  Claim C10. \<open>make_instance\<close> raises whenever a declared edge has an empty output path or an
  empty input path; it returns a graph only when every edge addresses the producer output and
  the consumer input by non-empty paths.
\<close>

theorem make_instance_requires_paths:
  "((\<exists>e\<in>set (edges self). output_path e = [] \<or> input_path e = []) \<longrightarrow>
      (\<exists>err. make_instance self gid = Inl err))
   \<and> (\<forall>g. make_instance self gid = Inr g \<longrightarrow>
        (\<forall>e\<in>set (edges self). output_path e \<noteq> [] \<and> input_path e \<noteq> []))"
proof -
  have ok: "\<forall>e\<in>set (edges self). output_path e \<noteq> [] \<and> input_path e \<noteq> []"
    if "make_instance self gid = Inr g" for g
  proof -
    from that obtain ns ns1 where "wire_edges ns (edges self) = Inr ns1"
      by (auto simp: make_instance_def split: sum.splits)
    then show ?thesis by (rule wire_edges_paths)
  qed
  have "\<exists>err. make_instance self gid = Inl err"
    if bad: "\<exists>e\<in>set (edges self). output_path e = [] \<or> input_path e = []"
  proof (cases "make_instance self gid")
    case (Inl err)
    then show ?thesis by blast
  next
    case (Inr g)
    from ok [OF Inr] bad show ?thesis by blast
  qed
  with ok show ?thesis by blast
qed

theorem make_instance_requires_paths_witness:
  "make_instance pathless_builder [] = Inl (RuntimeError ''No path to find an input for'')
   \<and> (\<exists>g. make_instance wired_builder [] = Inr g)
   \<and> list_all (\<lambda>e. output_path e \<noteq> [] \<and> input_path e \<noteq> []) (edges wired_builder)"
proof -
  have bad: "\<exists>e\<in>set (edges pathless_builder). output_path e = [] \<or> input_path e = []"
    by (simp add: pathless_builder_def)
  have good: "make_instance wired_builder [] =
     Inr \<lparr>impl_graph_id = [], impl_nodes = map node_initialise
        [source_node, sink_node\<lparr>node_input := Some (Input None [Input (Some 1) []])\<rparr>]\<rparr>"
    by (simp add: make_instance_def wired_builder_def wire_edge_def list_position_def
        extract_output_def extract_input_def output_getitem_def input_getitem_def
        source_node_def sink_node_def)
  from make_instance_requires_paths [of pathless_builder "[]"] bad
  have "\<exists>err. make_instance pathless_builder [] = Inl err" by blast
  moreover have "make_instance pathless_builder [] = Inl (RuntimeError ''No path to find an input for'')"
    by (simp add: make_instance_def pathless_builder_def wire_edge_def list_position_def
        extract_output_def extract_input_def output_getitem_def input_getitem_def
        source_node_def sink_node_def)
  moreover from make_instance_requires_paths [of wired_builder "[]"] good
  have "list_all (\<lambda>e. output_path e \<noteq> [] \<and> input_path e \<noteq> []) (edges wired_builder)"
    by (simp add: list_all_iff)
  ultimately show ?thesis using good by blast
qed

section \<open>Properties of the topological ranking\<close>

lemma set_set_add [simp]: "set (set_add x xs) = insert x (set xs)"
  by (auto simp: set_add_def)





lemma mapping_edges_other [simp]:
  "mapping_edges (s\<lparr>nodes_to_process := q\<rparr>) = mapping_edges s"
  "mapping_edges (s\<lparr>processed_nodes := ps\<rparr>) = mapping_edges s"
  "mapping_edges (s\<lparr>source_nodes := src\<rparr>) = mapping_edges s"
  "mapping_edges (s\<lparr>max_rank := m\<rparr>) = mapping_edges s"
  by (simp_all add: mapping_edges_def)









lemma rank_of_update [simp]:
  "rank_of (AList.update k v ps) n = (if n = k then v else rank_of ps n)"
  by (simp add: rank_of_def update_conv')


























end
